theory Spec2Isabelle
  imports Main
begin

section \<open>The DynamoDB session store: data model\<close>

text \<open>
  A shallow embedding of \<^verbatim>\<open>src/lib/dynamodb-store-v3.ts\<close> and of the helpers and constants
  it imports. Times are integers: milliseconds since the epoch for \<^verbatim>\<open>Date.now()\<close> and for
  the value of a \<^verbatim>\<open>Date\<close>, seconds since the epoch for the result of \<^verbatim>\<open>toSecondsEpoch\<close>.
  The clock is a parameter \<open>now\<close> of every operation that reads it; an operation reads the
  same value each time it looks at the clock. The \<^verbatim>\<open>debug\<close> helper only prints and is left
  out. JavaScript numbers are modelled by \<open>int\<close>, so \<^verbatim>\<open>NaN\<close> and fractions are outside the
  model.
\<close>

subsection \<open>Constants (\<^verbatim>\<open>constants.ts\<close>)\<close>

definition DEFAULT_TABLE_NAME :: string where "DEFAULT_TABLE_NAME = ''sessions''"
definition DEFAULT_HASH_KEY :: string where "DEFAULT_HASH_KEY = ''id''"
definition DEFAULT_HASH_PREFIX :: string where "DEFAULT_HASH_PREFIX = ''sess_''"
definition DEFAULT_DATA_ATTRIBUTE :: string where "DEFAULT_DATA_ATTRIBUTE = ''sess''"
definition DEFAULT_RCU :: int where "DEFAULT_RCU = 5"
definition DEFAULT_WCU :: int where "DEFAULT_WCU = 5"
definition DEFAULT_TTL :: int where "DEFAULT_TTL = 86400000"
definition DEFAULT_TOUCH_INTERVAL :: int where "DEFAULT_TOUCH_INTERVAL = 30000"
definition DEFAULT_KEEP_EXPIRED_POLICY :: bool where "DEFAULT_KEEP_EXPIRED_POLICY = False"

subsection \<open>Values and errors\<close>

text \<open>
  JavaScript values: what can reach \<^verbatim>\<open>toSecondsEpoch\<close> (a \<^verbatim>\<open>Date\<close> with its millisecond
  timestamp, or something that is not an instance of \<^verbatim>\<open>Date\<close>) and what the members of
  a session are made of. An object is the list of its enumerable members; \<open>JInstance\<close>
  is an instance of a class other than \<^verbatim>\<open>Date\<close>, with the name of the class.
\<close>

datatype js_value =
    JDate int
  | JNumber int
  | JString string
  | JUndefined
  | JNull
  | JBoolean bool
  | JArray "js_value list"
  | JObject "(string \<times> js_value) list"
  | JInstance string "(string \<times> js_value) list"

type_synonym members = "(string \<times> js_value) list"

text \<open>
  Errors as values. \<open>NotADate v\<close> is the \<^verbatim>\<open>Error\<close> that \<^verbatim>\<open>toSecondsEpoch\<close> throws for the
  value \<open>v\<close> (its message is built from \<open>v\<close>); \<open>TypeError\<close> is what reading a property of
  \<^verbatim>\<open>undefined\<close> throws; \<open>ClientError\<close> is an error object with which the database client
  rejects a request, identified by its content.
\<close>

datatype error = NotADate js_value | TypeError string | ClientError string

subsection \<open>Helpers (\<^verbatim>\<open>utlis\<close>)\<close>

text \<open>
  \<^verbatim>\<open>Math.floor(date.getTime() / 1000)\<close> on an integer timestamp is \<open>div\<close> on \<open>int\<close>,
  which rounds towards minus infinity as \<^verbatim>\<open>Math.floor\<close> does.
\<close>

fun toSecondsEpoch :: "js_value \<Rightarrow> error + int" where
  "toSecondsEpoch (JDate ms) = Inr (ms div 1000)"
| "toSecondsEpoch v = Inl (NotADate v)"

text \<open>
  \<^verbatim>\<open>!expires || expires <= toSecondsEpoch(new Date())\<close>. The argument is \<open>None\<close> when the
  record has no \<^verbatim>\<open>expires\<close> attribute (\<^verbatim>\<open>undefined\<close> is falsy, as \<open>0\<close> is). The right
  operand is evaluated only when the left one is false.
\<close>

definition isExpired :: "int \<Rightarrow> int option \<Rightarrow> error + bool" where
  "isExpired now expires =
     (case expires of
        None \<Rightarrow> Inr True
      | Some n \<Rightarrow>
          if n = 0 then Inr True
          else (case toSecondsEpoch (JDate now) of
                  Inl e \<Rightarrow> Inl e
                | Inr s \<Rightarrow> Inr (n \<le> s)))"

subsection \<open>Session payload\<close>

text \<open>
  \<^verbatim>\<open>SessionData\<close>: the store reads \<^verbatim>\<open>cookie.maxAge\<close> and reads and writes \<^verbatim>\<open>updated\<close>;
  everything else is opaque to it and is kept in \<open>payload\<close>, and the other members of
  the cookie in \<open>cookie_rest\<close>. \<open>maxAge = None\<close> stands for a \<^verbatim>\<open>maxAge\<close> that is not a
  number, \<open>updated = None\<close> for a missing stamp. A session as the middleware hands it to
  the store has a list of members as its payload.
\<close>

record Cookie =
  maxAge :: "int option"
  cookie_rest :: members

record 'p SessionData =
  cookie :: "Cookie option"
  updated :: "int option"
  payload :: 'p

type_synonym Session = "members SessionData"

subsection \<open>Options and the constructor\<close>

text \<open>
  What the caller hands to the constructor: every leaf may be missing (\<open>None\<close> is
  \<^verbatim>\<open>undefined\<close>), and so may the two sub-objects.
\<close>

record TableInput =
  name_in :: "string option"
  hashPrefix_in :: "string option"
  hashKey_in :: "string option"
  dataAttribute_in :: "string option"
  readCapacityUnits_in :: "int option"
  writeCapacityUnits_in :: "int option"

record DynamoConfig =
  accessKeyId :: "string option"
  secretAccessKey :: "string option"
  region :: "string option"
  endpoint :: "string option"

record OptionsInput =
  table_in :: "TableInput option"
  dynamoConfig_in :: "DynamoConfig option"
  touchInterval_in :: "int option"
  ttl_in :: "int option"
  keepExpired_in :: "bool option"

text \<open>
  \<^verbatim>\<open>this.options\<close>. The field \<open>ttl\<close> stays optional in the type because
  \<^verbatim>\<open>getExpiration\<close> tests it against \<^verbatim>\<open>undefined\<close>.
\<close>

record TableOptions =
  name :: string
  hashPrefix :: string
  hashKey :: string
  dataAttribute :: string
  readCapacityUnits :: int
  writeCapacityUnits :: int

record Options =
  table :: TableOptions
  dynamoConfig :: DynamoConfig
  touchInterval :: int
  ttl :: "int option"
  keepExpired :: bool

text \<open>JavaScript truthiness of a string, a number and a boolean.\<close>

definition truthy_string :: "string \<Rightarrow> bool" where
  "truthy_string s = (s \<noteq> [])"

definition truthy_number :: "int \<Rightarrow> bool" where
  "truthy_number n = (n \<noteq> 0)"

definition truthy_boolean :: "bool \<Rightarrow> bool" where
  "truthy_boolean b = b"

text \<open>The conditional \<^verbatim>\<open>x ? x : d\<close> on a possibly missing \<open>x\<close>.\<close>

definition or_default :: "('a \<Rightarrow> bool) \<Rightarrow> 'a option \<Rightarrow> 'a \<Rightarrow> 'a" where
  "or_default truthy x d =
     (case x of None \<Rightarrow> d | Some v \<Rightarrow> if truthy v then v else d)"

text \<open>
  The assignment to \<^verbatim>\<open>this.options\<close> in the constructor. Reading a member of a missing
  \<^verbatim>\<open>options.table\<close> or \<^verbatim>\<open>options.dynamoConfig\<close> throws a \<^verbatim>\<open>TypeError\<close>. The call of
  \<^verbatim>\<open>createTable\<close> that follows does not change the options and is not modelled.
\<close>

definition constructor_options :: "OptionsInput \<Rightarrow> error + Options" where
  "constructor_options options =
     (case table_in options of
        None \<Rightarrow> Inl (TypeError ''table'')
      | Some t \<Rightarrow>
          (case dynamoConfig_in options of
             None \<Rightarrow> Inl (TypeError ''dynamoConfig'')
           | Some c \<Rightarrow>
               Inr \<lparr> table =
                       \<lparr> name = or_default truthy_string (name_in t) DEFAULT_TABLE_NAME,
                         hashPrefix =
                           or_default truthy_string (hashPrefix_in t) DEFAULT_HASH_PREFIX,
                         hashKey = or_default truthy_string (hashKey_in t) DEFAULT_HASH_KEY,
                         dataAttribute =
                           or_default truthy_string (dataAttribute_in t) DEFAULT_DATA_ATTRIBUTE,
                         readCapacityUnits =
                           or_default truthy_number (readCapacityUnits_in t) DEFAULT_RCU,
                         writeCapacityUnits =
                           or_default truthy_number (writeCapacityUnits_in t) DEFAULT_WCU \<rparr>,
                     dynamoConfig =
                       \<lparr> accessKeyId = accessKeyId c,
                         secretAccessKey = secretAccessKey c,
                         region = region c,
                         endpoint = endpoint c \<rparr>,
                     touchInterval =
                       or_default truthy_number (touchInterval_in options) DEFAULT_TOUCH_INTERVAL,
                     ttl = Some (or_default truthy_number (ttl_in options) DEFAULT_TTL),
                     keepExpired =
                       or_default truthy_boolean (keepExpired_in options)
                         DEFAULT_KEEP_EXPIRED_POLICY \<rparr>))"

subsection \<open>Private helpers of the store\<close>

definition getSessionID :: "Options \<Rightarrow> string \<Rightarrow> string" where
  "getSessionID opts sid = hashPrefix (table opts) @ sid"

text \<open>\<^verbatim>\<open>getExpiration\<close> returns a \<^verbatim>\<open>Date\<close>, built from a millisecond timestamp.\<close>

definition getExpiration :: "Options \<Rightarrow> int \<Rightarrow> 'p SessionData \<Rightarrow> js_value" where
  "getExpiration opts now sess =
     JDate
       (case ttl opts of
          Some t \<Rightarrow> now + t
        | None \<Rightarrow>
            (case cookie sess of
               None \<Rightarrow> now + DEFAULT_TTL
             | Some c \<Rightarrow>
                 (case maxAge c of
                    Some m \<Rightarrow> now + m
                  | None \<Rightarrow> now + DEFAULT_TTL)))"

subsection \<open>The database client\<close>

text \<open>
  The store talks to DynamoDB through \<^verbatim>\<open>dynamoDBClient.send\<close>. The client is the
  environment of the program, modelled by its wire contract: one table of items, each
  with the value stored under the data attribute and a numeric \<^verbatim>\<open>expires\<close> (either may
  be missing in an item that this store did not write).
\<close>

text \<open>
  The constructor creates the document client with the marshalling options
  \<^verbatim>\<open>convertEmptyValues\<close>, \<^verbatim>\<open>removeUndefinedValues\<close> and \<^verbatim>\<open>convertClassInstanceToMap\<close>, all
  \<^verbatim>\<open>true\<close>, and the unmarshalling option \<^verbatim>\<open>wrapNumbers: false\<close>. \<open>marshall v\<close> is the
  value that comes back from the service when \<open>v\<close> was written through that client: an
  empty string comes back as \<^verbatim>\<open>null\<close>; members and elements that are \<^verbatim>\<open>undefined\<close> are
  dropped; a \<^verbatim>\<open>Date\<close>, which has no enumerable member, comes back as the empty object
  and any other class instance as the plain object of its members; numbers come back as
  numbers. The value \<^verbatim>\<open>undefined\<close> itself is only met inside an object or an array, where
  it is dropped before the last equation can apply. Sets, binary values, functions and
  numbers that the client refuses are not among the values modelled.
\<close>

fun marshall :: "js_value \<Rightarrow> js_value" where
  "marshall (JString s) = (if s = [] then JNull else JString s)"
| "marshall (JDate ms) = JObject []"
| "marshall (JArray xs) = JArray (map marshall (filter (\<lambda>x. x \<noteq> JUndefined) xs))"
| "marshall (JObject ms) =
     JObject (map (\<lambda>(k, v). (k, marshall v)) (filter (\<lambda>(k, v). v \<noteq> JUndefined) ms))"
| "marshall (JInstance cls ms) =
     JObject (map (\<lambda>(k, v). (k, marshall v)) (filter (\<lambda>(k, v). v \<noteq> JUndefined) ms))"
| "marshall v = v"

definition marshall_members :: "members \<Rightarrow> members" where
  "marshall_members ms =
     map (\<lambda>(k, v). (k, marshall v)) (filter (\<lambda>(k, v). v \<noteq> JUndefined) ms)"

text \<open>
  A session is written as the object of its members: the stamp and \<^verbatim>\<open>cookie.maxAge\<close> are
  numbers when they are present, and the cookie, an instance of a class, comes back as
  a plain object with the same members.
\<close>

definition marshall_cookie :: "Cookie \<Rightarrow> Cookie" where
  "marshall_cookie c = c\<lparr> cookie_rest := marshall_members (cookie_rest c) \<rparr>"

definition marshall_session :: "Session \<Rightarrow> Session" where
  "marshall_session s =
     s\<lparr> cookie := map_option marshall_cookie (cookie s),
        payload := marshall_members (payload s) \<rparr>"

text \<open>
  The values that the marshalling leaves as they are: no empty string, no
  \<^verbatim>\<open>undefined\<close>, no \<^verbatim>\<open>Date\<close> and no other class instance, at any depth.
\<close>

fun roundtrip_safe :: "js_value \<Rightarrow> bool" where
  "roundtrip_safe (JString s) = (s \<noteq> [])"
| "roundtrip_safe (JDate ms) = False"
| "roundtrip_safe JUndefined = False"
| "roundtrip_safe (JInstance cls ms) = False"
| "roundtrip_safe (JArray xs) = list_all roundtrip_safe xs"
| "roundtrip_safe (JObject ms) = list_all (\<lambda>(k, v). roundtrip_safe v) ms"
| "roundtrip_safe v = True"

definition roundtrip_safe_members :: "members \<Rightarrow> bool" where
  "roundtrip_safe_members ms = list_all (\<lambda>(k, v). roundtrip_safe v) ms"

definition roundtrip_safe_session :: "Session \<Rightarrow> bool" where
  "roundtrip_safe_session s =
     ((case cookie s of None \<Rightarrow> True | Some c \<Rightarrow> roundtrip_safe_members (cookie_rest c)) \<and>
      roundtrip_safe_members (payload s))"

record Item =
  sess_attr :: "Session option"
  expires_attr :: "int option"

text \<open>
  The four commands the store builds, with the arguments the source gives them:
  \<^item> \<open>UpdateSet TableName hashKey Key dataAttribute value0 e\<close> is the \<^verbatim>\<open>UpdateCommand\<close> of
    \<^verbatim>\<open>set\<close> (\<^verbatim>\<open>SET #field0 = :value0, expires = :e\<close>);
  \<^item> \<open>UpdateTouch TableName hashKey Key dataAttribute e n\<close> is the \<^verbatim>\<open>UpdateCommand\<close> of
    \<^verbatim>\<open>touch\<close> (\<^verbatim>\<open>set expires = :e, <dataAttribute>.#up = :n\<close>);
  \<^item> \<open>GetCommand TableName hashKey Key\<close> (a consistent read);
  \<^item> \<open>DeleteCommand TableName hashKey Key\<close>.
\<close>

datatype command =
    UpdateSet string string string string "Session" int
  | UpdateTouch string string string string int int
  | GetCommand string string string
  | DeleteCommand string string string

text \<open>
  The state of the service: the items of the table by the value of their hash key, the
  requests it has received so far, and \<open>fault\<close>, which says with which error (if any)
  the service rejects a request: the environment's choice, not the program's.
\<close>

record DB =
  items :: "string \<rightharpoonup> Item"
  fault :: "command \<Rightarrow> error option"
  sent :: "command list"

text \<open>
  What an accepted command does to the table and the \<^verbatim>\<open>Item\<close> member of its output
  (the only member the store reads; \<open>None\<close> is \<^verbatim>\<open>undefined\<close>). The session that
  \<^verbatim>\<open>set\<close> writes is stored as the client marshalls it. An update of a nested path needs
  the item and its data attribute to exist: DynamoDB rejects it otherwise.
\<close>

fun apply_command ::
  "command \<Rightarrow> (string \<rightharpoonup> Item) \<Rightarrow> (error + Item option) \<times> (string \<rightharpoonup> Item)"
where
  "apply_command (GetCommand tn hk k) m = (Inr (m k), m)"
| "apply_command (DeleteCommand tn hk k) m = (Inr None, m(k := None))"
| "apply_command (UpdateSet tn hk k da v e) m =
     (Inr None, m(k \<mapsto> \<lparr> sess_attr = Some (marshall_session v), expires_attr = Some e \<rparr>))"
| "apply_command (UpdateTouch tn hk k da e n) m =
     (case m k of
        None \<Rightarrow> (Inl (ClientError ''ValidationException''), m)
      | Some it \<Rightarrow>
          (case sess_attr it of
             None \<Rightarrow> (Inl (ClientError ''ValidationException''), m)
           | Some s \<Rightarrow>
               (Inr None,
                m(k \<mapsto> \<lparr> sess_attr = Some (s\<lparr> updated := Some n \<rparr>),
                           expires_attr = Some e \<rparr>))))"

text \<open>\<^verbatim>\<open>send\<close>: the request is recorded, then rejected or applied. No retry.\<close>

definition send :: "command \<Rightarrow> DB \<Rightarrow> (error + Item option) \<times> DB" where
  "send c d =
     (let d' = d\<lparr> sent := sent d @ [c] \<rparr> in
      case fault d c of
        Some e \<Rightarrow> (Inl e, d')
      | None \<Rightarrow> (case apply_command c (items d') of (r, m) \<Rightarrow> (r, d'\<lparr> items := m \<rparr>)))"

subsection \<open>Callbacks and outcomes\<close>

text \<open>
  An operation ends by invoking the caller's callback (or not). The arguments of the
  invocation are kept as the source writes them: \<^verbatim>\<open>callback()\<close> is \<open>[]\<close>,
  \<^verbatim>\<open>callback(null)\<close> is \<open>[Null]\<close>, \<^verbatim>\<open>callback(e)\<close> is \<open>[ErrArg e]\<close>,
  \<^verbatim>\<open>callback(null, null)\<close> is \<open>[Null, Null]\<close>, \<^verbatim>\<open>callback(null, s)\<close> is
  \<open>[Null, SessArg s]\<close>.
\<close>

datatype arg = Null | Undefined | ErrArg error | SessArg "Session"

text \<open>
  The outcome of an operation once its request has settled: the invocation of the
  callback (\<open>None\<close>: no callback was invoked), the rejection that nobody handles (the
  promise returned by \<^verbatim>\<open>finally\<close> rejects when the request did), and the state of the
  service afterwards.
\<close>

record outcome =
  called :: "arg list option"
  unhandled :: "error option"
  dbstate :: "DB"

text \<open>\<^verbatim>\<open>if (typeof callback === 'function') callback(...)\<close>; \<open>cb\<close> says a callback was given.\<close>

definition invoke :: "bool \<Rightarrow> arg list \<Rightarrow> arg list option" where
  "invoke cb args = (if cb then Some args else None)"

text \<open>
  \<^verbatim>\<open>send(command).finally(callback)\<close>: \<^verbatim>\<open>finally\<close> calls its handler with no arguments
  when the promise settles, fulfilled or rejected, and passes the settlement on.
\<close>

definition finally_callback :: "bool \<Rightarrow> (error + Item option) \<times> DB \<Rightarrow> outcome" where
  "finally_callback cb rd =
     (case rd of
        (r, d) \<Rightarrow>
          \<lparr> called = invoke cb [],
            unhandled = (case r of Inl e \<Rightarrow> Some e | Inr _ \<Rightarrow> None),
            dbstate = d \<rparr>)"

subsection \<open>The four operations\<close>

text \<open>
  \<^verbatim>\<open>destroy(sid, callback?)\<close>: one \<^verbatim>\<open>DeleteCommand\<close>; \<^verbatim>\<open>callback(null)\<close> when it is
  accepted, \<^verbatim>\<open>callback(e)\<close> when the \<^verbatim>\<open>await\<close> throws \<open>e\<close>.
\<close>

definition destroy :: "Options \<Rightarrow> string \<Rightarrow> bool \<Rightarrow> DB \<Rightarrow> outcome" where
  "destroy opts sid cb d =
     (let sessionID = getSessionID opts sid;
          command = DeleteCommand (name (table opts)) (hashKey (table opts)) sessionID
      in case send command d of
           (Inl e, d') \<Rightarrow> \<lparr> called = invoke cb [ErrArg e], unhandled = None, dbstate = d' \<rparr>
         | (Inr _, d') \<Rightarrow> \<lparr> called = invoke cb [Null], unhandled = None, dbstate = d' \<rparr>)"

definition handleExpiredSession :: "Options \<Rightarrow> string \<Rightarrow> bool \<Rightarrow> DB \<Rightarrow> outcome" where
  "handleExpiredSession opts sid cb d =
     (if keepExpired opts
      then \<lparr> called = invoke cb [], unhandled = None, dbstate = d \<rparr>
      else destroy opts sid cb d)"

text \<open>
  \<^verbatim>\<open>get(sid, callback)\<close>: the callback is a required parameter and is invoked without a
  test. A record without the data attribute gives \<^verbatim>\<open>callback(null, undefined)\<close>.
\<close>

definition get :: "Options \<Rightarrow> int \<Rightarrow> string \<Rightarrow> DB \<Rightarrow> outcome" where
  "get opts now sid d =
     (let sessionID = getSessionID opts sid;
          command = GetCommand (name (table opts)) (hashKey (table opts)) sessionID
      in case send command d of
           (Inl e, d') \<Rightarrow> \<lparr> called = Some [ErrArg e], unhandled = None, dbstate = d' \<rparr>
         | (Inr None, d') \<Rightarrow> \<lparr> called = Some [Null, Null], unhandled = None, dbstate = d' \<rparr>
         | (Inr (Some record), d') \<Rightarrow>
             (case isExpired now (expires_attr record) of
                Inl e \<Rightarrow> \<lparr> called = Some [ErrArg e], unhandled = None, dbstate = d' \<rparr>
              | Inr True \<Rightarrow> handleExpiredSession opts sid True d'
              | Inr False \<Rightarrow>
                  \<lparr> called =
                      Some [Null, (case sess_attr record of
                                     None \<Rightarrow> Undefined
                                   | Some s \<Rightarrow> SessArg s)],
                    unhandled = None, dbstate = d' \<rparr>))"

text \<open>
  \<^verbatim>\<open>set(sid, sess, callback)\<close>. The body is given with the imported conversion helper as
  a parameter \<open>conv\<close>, so that the guarded block can be studied for any behaviour of the
  helper; \<open>set_op\<close> is the method itself, with \<^verbatim>\<open>toSecondsEpoch\<close> as in the source. The
  method assigns \<^verbatim>\<open>sess.updated\<close> in the caller's object: the first component of the
  result is that object afterwards. A throw inside the block reaches the
  \<^verbatim>\<open>catch\<close> before the assignment and before any request.
\<close>

definition set_body ::
  "(js_value \<Rightarrow> error + int) \<Rightarrow> Options \<Rightarrow> int \<Rightarrow> string \<Rightarrow> Session \<Rightarrow> bool \<Rightarrow> DB
     \<Rightarrow> Session \<times> outcome"
where
  "set_body conv opts now sid sess cb d =
     (let sessionID = getSessionID opts sid in
      case conv (getExpiration opts now sess) of
        Inl e \<Rightarrow> (sess, \<lparr> called = invoke cb [ErrArg e], unhandled = None, dbstate = d \<rparr>)
      | Inr expires \<Rightarrow>
          (case conv (JDate now) of
             Inl e \<Rightarrow> (sess, \<lparr> called = invoke cb [ErrArg e], unhandled = None, dbstate = d \<rparr>)
           | Inr stamp \<Rightarrow>
               (let sess' = sess\<lparr> updated := Some stamp \<rparr>;
                    command =
                      UpdateSet (name (table opts)) (hashKey (table opts)) sessionID
                        (dataAttribute (table opts)) sess' expires
                in (sess', finally_callback cb (send command d)))))"

definition set_op ::
  "Options \<Rightarrow> int \<Rightarrow> string \<Rightarrow> Session \<Rightarrow> bool \<Rightarrow> DB \<Rightarrow> Session \<times> outcome"
where
  "set_op = set_body toSecondsEpoch"

text \<open>
  \<^verbatim>\<open>touch(sid, sess, callback?)\<close>. \<^verbatim>\<open>!sess.updated\<close> holds for a missing stamp and for
  the stamp \<open>0\<close>. The \<^verbatim>\<open>catch\<close> block calls \<^verbatim>\<open>callback()\<close> with no argument.
\<close>

definition touch :: "Options \<Rightarrow> int \<Rightarrow> string \<Rightarrow> Session \<Rightarrow> bool \<Rightarrow> DB \<Rightarrow> outcome" where
  "touch opts now sid sess cb d =
     (if (case updated sess of None \<Rightarrow> True | Some u \<Rightarrow> u = 0 \<or> u + touchInterval opts \<le> now)
      then
        (let sessionID = getSessionID opts sid;
             expires = getExpiration opts now sess
         in case toSecondsEpoch expires of
              Inl e \<Rightarrow> \<lparr> called = invoke cb [], unhandled = None, dbstate = d \<rparr>
            | Inr e \<Rightarrow>
                finally_callback cb
                  (send (UpdateTouch (name (table opts)) (hashKey (table opts)) sessionID
                           (dataAttribute (table opts)) e now) d))
      else \<lparr> called = invoke cb [], unhandled = None, dbstate = d \<rparr>)"

text \<open>Shorthand for the two commands that \<^verbatim>\<open>get\<close> and \<^verbatim>\<open>destroy\<close> build for a session id.\<close>

abbreviation getCommand :: "Options \<Rightarrow> string \<Rightarrow> command" where
  "getCommand opts sid \<equiv>
     GetCommand (name (table opts)) (hashKey (table opts)) (getSessionID opts sid)"

abbreviation deleteCommand :: "Options \<Rightarrow> string \<Rightarrow> command" where
  "deleteCommand opts sid \<equiv>
     DeleteCommand (name (table opts)) (hashKey (table opts)) (getSessionID opts sid)"

text \<open>Shorthand for the two update commands that \<^verbatim>\<open>set\<close> and \<^verbatim>\<open>touch\<close> build.\<close>

abbreviation updateSetCommand :: "Options \<Rightarrow> string \<Rightarrow> Session \<Rightarrow> int \<Rightarrow> command" where
  "updateSetCommand opts sid v e \<equiv>
     UpdateSet (name (table opts)) (hashKey (table opts)) (getSessionID opts sid)
       (dataAttribute (table opts)) v e"

abbreviation updateTouchCommand :: "Options \<Rightarrow> string \<Rightarrow> int \<Rightarrow> int \<Rightarrow> command" where
  "updateTouchCommand opts sid e n \<equiv>
     UpdateTouch (name (table opts)) (hashKey (table opts)) (getSessionID opts sid)
       (dataAttribute (table opts)) e n"

subsection \<open>Concrete stores and sessions\<close>

text \<open>
  Inputs for the concrete evaluations below: a caller who supplies the two sub-objects
  and omits every optional field, the options the constructor builds from that, a
  service with an empty table that accepts every request, and a session without cookie
  and without stamp.
\<close>

definition no_input :: OptionsInput where
  "no_input =
     \<lparr> table_in =
         Some \<lparr> name_in = None, hashPrefix_in = None, hashKey_in = None,
                dataAttribute_in = None, readCapacityUnits_in = None,
                writeCapacityUnits_in = None \<rparr>,
       dynamoConfig_in =
         Some \<lparr> accessKeyId = None, secretAccessKey = None, region = None, endpoint = None \<rparr>,
       touchInterval_in = None, ttl_in = None, keepExpired_in = None \<rparr>"

definition default_options :: Options where
  "default_options =
     \<lparr> table =
         \<lparr> name = ''sessions'', hashPrefix = ''sess_'', hashKey = ''id'',
           dataAttribute = ''sess'', readCapacityUnits = 5, writeCapacityUnits = 5 \<rparr>,
       dynamoConfig =
         \<lparr> accessKeyId = None, secretAccessKey = None, region = None, endpoint = None \<rparr>,
       touchInterval = 30000, ttl = Some 86400000, keepExpired = False \<rparr>"

definition empty_db :: "DB" where
  "empty_db = \<lparr> items = Map.empty, fault = (\<lambda>c. None), sent = [] \<rparr>"

definition plain_session :: "Session" where
  "plain_session = \<lparr> cookie = None, updated = None, payload = [] \<rparr>"

text \<open>
  A service whose table holds one record for the session \<open>abc\<close> of the default store,
  expired since second 1, and a service that rejects every delete request with a given
  error and accepts everything else.
\<close>

definition expired_db :: "DB" where
  "expired_db =
     \<lparr> items = [''sess_abc'' \<mapsto> \<lparr> sess_attr = Some plain_session, expires_attr = Some 1 \<rparr>],
       fault = (\<lambda>c. None), sent = [] \<rparr>"

definition delete_fails :: "error \<Rightarrow> command \<Rightarrow> error option" where
  "delete_fails e c = (case c of DeleteCommand tn hk k \<Rightarrow> Some e | _ \<Rightarrow> None)"

text \<open>
  A session with a cookie and two members that the marshalling leaves alone, and one
  with an empty string, a \<^verbatim>\<open>Date\<close> and an \<^verbatim>\<open>undefined\<close> member. Then
  an error of the service, a service that rejects every request with it, the outcome
  of saving the plain session \<open>abc\<close> in the default store at millisecond
  1700000000000 on an empty table, and a store configured with a ttl of half a second.
\<close>

definition user_session :: Session where
  "user_session =
     \<lparr> cookie = Some \<lparr> maxAge = Some 60000, cookie_rest = [(''path'', JString ''/'')] \<rparr>,
       updated = None,
       payload = [(''user'', JString ''ann''), (''visits'', JNumber 3)] \<rparr>"

definition fragile_session :: Session where
  "fragile_session =
     \<lparr> cookie = None, updated = None,
       payload = [(''note'', JString []), (''seen'', JDate 5), (''tmp'', JUndefined),
                  (''user'', JString ''ann'')] \<rparr>"

definition unavailable :: error where
  "unavailable = ClientError ''ServiceUnavailable''"

definition failing_db :: "DB" where
  "failing_db = empty_db\<lparr> fault := (\<lambda>c. Some unavailable) \<rparr>"

definition saved :: "Session \<times> outcome" where
  "saved = set_op default_options 1700000000000 ''abc'' plain_session True empty_db"

definition short_ttl_options :: Options where
  "short_ttl_options = default_options\<lparr> ttl := Some 500 \<rparr>"

text \<open>
  A caller who supplies a falsy value for every optional field, and a conversion that
  behaves as \<^verbatim>\<open>toSecondsEpoch\<close> except that it throws for the date of millisecond 1000.
\<close>

definition falsy_table :: TableInput where
  "falsy_table =
     \<lparr> name_in = Some [], hashPrefix_in = Some [], hashKey_in = Some [],
       dataAttribute_in = Some [], readCapacityUnits_in = Some 0,
       writeCapacityUnits_in = Some 0 \<rparr>"

definition falsy_input :: OptionsInput where
  "falsy_input =
     no_input\<lparr> table_in := Some falsy_table, touchInterval_in := Some 0, ttl_in := Some 0,
                keepExpired_in := Some False \<rparr>"

definition second_throws :: "js_value \<Rightarrow> error + int" where
  "second_throws v = (if v = JDate 1000 then toSecondsEpoch JUndefined else toSecondsEpoch v)"

section \<open>Properties\<close>

text \<open>The values of the constants, for unfolding.\<close>

lemmas defaults =
  DEFAULT_TABLE_NAME_def DEFAULT_HASH_KEY_def DEFAULT_HASH_PREFIX_def
  DEFAULT_DATA_ATTRIBUTE_def DEFAULT_RCU_def DEFAULT_WCU_def DEFAULT_TTL_def
  DEFAULT_TOUCH_INTERVAL_def DEFAULT_KEEP_EXPIRED_POLICY_def

text \<open>
  Claim C7. For every number \<open>expires\<close>, \<^verbatim>\<open>isExpired(expires)\<close> returns true when
  \<open>expires = 0\<close>, true when \<open>expires\<close> is less than or equal to the current
  seconds-since-epoch, and false otherwise; it never throws.
\<close>

theorem isExpired_spec:
  "isExpired now (Some expires) = Inr (expires = 0 \<or> expires \<le> now div 1000)"
  by (simp add: isExpired_def)

subsection \<open>The constructor and the expiration policy\<close>

lemma constructor_no_input: "constructor_options no_input = Inr default_options"
  by (simp add: constructor_options_def no_input_def default_options_def or_default_def defaults)

text \<open>
  Claim C5. For every session payload, \<^verbatim>\<open>getExpiration\<close> returns \<open>now + ttl\<close> when a fixed
  \<open>ttl\<close> is configured; otherwise \<open>now + cookie.maxAge\<close> when the payload carries a
  numeric \<^verbatim>\<open>cookie.maxAge\<close>; otherwise \<open>now +\<close> the default ttl of 86400000 ms. The result
  is always a \<^verbatim>\<open>Date\<close>, an absolute point in time.
\<close>

theorem getExpiration_spec:
  "(ttl opts = Some t \<longrightarrow> getExpiration opts now sess = JDate (now + t)) \<and>
   (ttl opts = None \<and> cookie sess = Some c \<and> maxAge c = Some m \<longrightarrow>
      getExpiration opts now sess = JDate (now + m)) \<and>
   (ttl opts = None \<and> (cookie sess = None \<or> (cookie sess = Some c \<and> maxAge c = None)) \<longrightarrow>
      getExpiration opts now sess = JDate (now + 86400000)) \<and>
   (\<exists>ms. getExpiration opts now sess = JDate ms)"
  by (auto simp: getExpiration_def DEFAULT_TTL_def)

text \<open>The three branches of C5 at concrete stores and payloads.\<close>

theorem getExpiration_spec_witness:
  "getExpiration default_options 1000 plain_session = JDate 86401000 \<and>
   getExpiration (default_options\<lparr> ttl := None \<rparr>) 1000
     (plain_session\<lparr> cookie := Some \<lparr> maxAge = Some 60000, cookie_rest = [] \<rparr> \<rparr>) = JDate 61000 \<and>
   getExpiration (default_options\<lparr> ttl := None \<rparr>) 1000 plain_session = JDate 86401000"
  using getExpiration_spec [of default_options 86400000 1000 plain_session]
    getExpiration_spec [of "default_options\<lparr> ttl := None \<rparr>" _ 1000
      "plain_session\<lparr> cookie := Some \<lparr> maxAge = Some 60000, cookie_rest = [] \<rparr> \<rparr>" "\<lparr> maxAge = Some 60000, cookie_rest = [] \<rparr>" 60000]
    getExpiration_spec [of "default_options\<lparr> ttl := None \<rparr>" _ 1000 plain_session]
  by (simp add: default_options_def plain_session_def)

text \<open>
  Claim C6. For every caller-supplied options structure (with its two required
  sub-objects), the constructor raises no error and produces a fully populated
  configuration in which each omitted optional field has its documented default: table
  name \<open>sessions\<close>, hash prefix \<open>sess_\<close>, hash key \<open>id\<close>, data attribute \<open>sess\<close>, read
  and write capacity units 5, touchInterval 30000, ttl 86400000, keepExpired false. The
  connection parameters are passed through.
\<close>

theorem constructor_defaults:
  assumes "table_in options = Some t" and "dynamoConfig_in options = Some c"
  shows "\<exists>cfg. constructor_options options = Inr cfg \<and>
           (name_in t = None \<longrightarrow> name (table cfg) = ''sessions'') \<and>
           (hashPrefix_in t = None \<longrightarrow> hashPrefix (table cfg) = ''sess_'') \<and>
           (hashKey_in t = None \<longrightarrow> hashKey (table cfg) = ''id'') \<and>
           (dataAttribute_in t = None \<longrightarrow> dataAttribute (table cfg) = ''sess'') \<and>
           (readCapacityUnits_in t = None \<longrightarrow> readCapacityUnits (table cfg) = 5) \<and>
           (writeCapacityUnits_in t = None \<longrightarrow> writeCapacityUnits (table cfg) = 5) \<and>
           (touchInterval_in options = None \<longrightarrow> touchInterval cfg = 30000) \<and>
           (ttl_in options = None \<longrightarrow> ttl cfg = Some 86400000) \<and>
           (keepExpired_in options = None \<longrightarrow> keepExpired cfg = False) \<and>
           ttl cfg \<noteq> None \<and> dynamoConfig cfg = c"
  using assms
  by (simp add: constructor_options_def or_default_def defaults)

text \<open>C6 at the caller who omits every optional field.\<close>

theorem constructor_defaults_witness:
  "\<exists>cfg. constructor_options no_input = Inr cfg \<and>
      name (table cfg) = ''sessions'' \<and> hashPrefix (table cfg) = ''sess_'' \<and>
      hashKey (table cfg) = ''id'' \<and> dataAttribute (table cfg) = ''sess'' \<and>
      readCapacityUnits (table cfg) = 5 \<and> writeCapacityUnits (table cfg) = 5 \<and>
      touchInterval cfg = 30000 \<and> ttl cfg = Some 86400000 \<and> keepExpired cfg = False"
  using constructor_defaults [of no_input
      "\<lparr> name_in = None, hashPrefix_in = None, hashKey_in = None,
         dataAttribute_in = None, readCapacityUnits_in = None, writeCapacityUnits_in = None \<rparr>"
      "\<lparr> accessKeyId = None, secretAccessKey = None, region = None, endpoint = None \<rparr>"]
  by (simp add: no_input_def) blast

text \<open>
  Claim C9 says that the constructor tests every optional field for truthiness, so that a
  supplied falsy value is replaced by the default, and concludes that no store can have
  a falsy value for any optional option. The conclusion fails for \<^verbatim>\<open>keepExpired\<close>: its
  default is \<^verbatim>\<open>false\<close>, so the store built with every option omitted has a falsy
  \<^verbatim>\<open>keepExpired\<close>.
\<close>

theorem keepExpired_falsy_counterexample:
  "constructor_options no_input = Inr default_options \<and>
   keepExpired default_options = False \<and>
   \<not> truthy_boolean (keepExpired default_options)"
  by (simp add: constructor_no_input default_options_def truthy_boolean_def)

text \<open>
  Claim C9, amended. The constructor tests each optional field for truthiness rather than
  presence: any supplied falsy value is replaced by the default (touchInterval 0 becomes
  30000, an empty hash prefix becomes \<open>sess_\<close>, an empty table name becomes \<open>sessions\<close>,
  and likewise for the other fields). Consequently no store has a falsy value for any
  optional option other than \<^verbatim>\<open>keepExpired\<close>, whose default is itself \<^verbatim>\<open>false\<close>.
\<close>

theorem constructor_truthiness:
  assumes "table_in options = Some t" and "dynamoConfig_in options = Some c"
  shows "\<exists>cfg. constructor_options options = Inr cfg \<and>
           (\<forall>v. name_in t = Some v \<and> \<not> truthy_string v \<longrightarrow> name (table cfg) = ''sessions'') \<and>
           (\<forall>v. hashPrefix_in t = Some v \<and> \<not> truthy_string v \<longrightarrow>
              hashPrefix (table cfg) = ''sess_'') \<and>
           (\<forall>v. hashKey_in t = Some v \<and> \<not> truthy_string v \<longrightarrow> hashKey (table cfg) = ''id'') \<and>
           (\<forall>v. dataAttribute_in t = Some v \<and> \<not> truthy_string v \<longrightarrow>
              dataAttribute (table cfg) = ''sess'') \<and>
           (\<forall>v. readCapacityUnits_in t = Some v \<and> \<not> truthy_number v \<longrightarrow>
              readCapacityUnits (table cfg) = 5) \<and>
           (\<forall>v. writeCapacityUnits_in t = Some v \<and> \<not> truthy_number v \<longrightarrow>
              writeCapacityUnits (table cfg) = 5) \<and>
           (\<forall>v. touchInterval_in options = Some v \<and> \<not> truthy_number v \<longrightarrow>
              touchInterval cfg = 30000) \<and>
           (\<forall>v. ttl_in options = Some v \<and> \<not> truthy_number v \<longrightarrow> ttl cfg = Some 86400000) \<and>
           (\<forall>v. keepExpired_in options = Some v \<and> \<not> truthy_boolean v \<longrightarrow>
              keepExpired cfg = False) \<and>
           truthy_string (name (table cfg)) \<and>
           truthy_string (hashPrefix (table cfg)) \<and>
           truthy_string (hashKey (table cfg)) \<and>
           truthy_string (dataAttribute (table cfg)) \<and>
           truthy_number (readCapacityUnits (table cfg)) \<and>
           truthy_number (writeCapacityUnits (table cfg)) \<and>
           truthy_number (touchInterval cfg) \<and>
           (\<exists>n. ttl cfg = Some n \<and> truthy_number n)"
proof -
  let ?cfg = "(case constructor_options options of Inr cfg \<Rightarrow> cfg)"
  have c: "constructor_options options = Inr ?cfg"
    using assms by (simp add: constructor_options_def)
  have f: "name (table ?cfg) = or_default truthy_string (name_in t) DEFAULT_TABLE_NAME"
    "hashPrefix (table ?cfg) = or_default truthy_string (hashPrefix_in t) DEFAULT_HASH_PREFIX"
    "hashKey (table ?cfg) = or_default truthy_string (hashKey_in t) DEFAULT_HASH_KEY"
    "dataAttribute (table ?cfg) =
       or_default truthy_string (dataAttribute_in t) DEFAULT_DATA_ATTRIBUTE"
    "readCapacityUnits (table ?cfg) = or_default truthy_number (readCapacityUnits_in t) DEFAULT_RCU"
    "writeCapacityUnits (table ?cfg) =
       or_default truthy_number (writeCapacityUnits_in t) DEFAULT_WCU"
    "touchInterval ?cfg = or_default truthy_number (touchInterval_in options) DEFAULT_TOUCH_INTERVAL"
    "ttl ?cfg = Some (or_default truthy_number (ttl_in options) DEFAULT_TTL)"
    "keepExpired ?cfg =
       or_default truthy_boolean (keepExpired_in options) DEFAULT_KEEP_EXPIRED_POLICY"
    using assms by (simp_all add: constructor_options_def)
  show ?thesis
    apply (rule exI [of _ ?cfg])
    apply (simp only: f)
    apply (intro conjI allI impI c)
    apply (simp_all add: or_default_def defaults truthy_string_def truthy_number_def
        truthy_boolean_def split: option.splits)
    done
qed

text \<open>
  The amended C9 at the caller who supplies a falsy value for every optional field: the
  constructor builds the default options.
\<close>

theorem constructor_truthiness_witness:
  "constructor_options falsy_input = Inr default_options"
proof -
  have t: "table_in falsy_input = Some falsy_table"
    and c: "dynamoConfig_in falsy_input =
      Some \<lparr> accessKeyId = None, secretAccessKey = None, region = None, endpoint = None \<rparr>"
    by (simp_all add: falsy_input_def no_input_def)
  have f: "touchInterval_in falsy_input = Some 0" "ttl_in falsy_input = Some 0"
    "keepExpired_in falsy_input = Some False" "name_in falsy_table = Some []"
    "hashPrefix_in falsy_table = Some []" "hashKey_in falsy_table = Some []"
    "dataAttribute_in falsy_table = Some []" "readCapacityUnits_in falsy_table = Some 0"
    "writeCapacityUnits_in falsy_table = Some 0"
    by (simp_all add: falsy_input_def falsy_table_def)
  from constructor_truthiness [OF t c] obtain cfg where
    r: "constructor_options falsy_input = Inr cfg"
    and v: "name (table cfg) = ''sessions''" "hashPrefix (table cfg) = ''sess_''"
      "hashKey (table cfg) = ''id''" "dataAttribute (table cfg) = ''sess''"
      "readCapacityUnits (table cfg) = 5" "writeCapacityUnits (table cfg) = 5"
      "touchInterval cfg = 30000" "ttl cfg = Some 86400000" "keepExpired cfg = False"
    by (auto simp: f truthy_string_def truthy_number_def truthy_boolean_def)
  have "dynamoConfig cfg =
      \<lparr> accessKeyId = None, secretAccessKey = None, region = None, endpoint = None \<rparr>"
    using r t c by (auto simp: constructor_options_def)
  with v have "cfg = default_options"
    by (simp add: default_options_def)
  with r show ?thesis by simp
qed

text \<open>
  Claim C10. For every store built by the constructor, \<^verbatim>\<open>options.ttl\<close> is never
  undefined, so \<^verbatim>\<open>getExpiration\<close> takes the fixed-ttl branch and returns
  \<open>now + options.ttl\<close> for every payload: the \<^verbatim>\<open>cookie.maxAge\<close> branch is unreachable
  and the payload never influences the expiration.
\<close>

theorem constructed_ttl_fixed:
  assumes "constructor_options options = Inr cfg"
  shows "\<exists>t. ttl cfg = Some t \<and>
           (\<forall>now (sess :: 'p SessionData). getExpiration cfg now sess = JDate (now + t)) \<and>
           (\<forall>now (sess :: 'p SessionData) (sess' :: 'p SessionData).
              getExpiration cfg now sess = getExpiration cfg now sess')"
  using assms
  by (auto simp: constructor_options_def getExpiration_def split: option.splits)

text \<open>C10 at the default store, with and without a cookie that carries a maxAge.\<close>

theorem constructed_ttl_fixed_witness:
  "\<exists>t. ttl default_options = Some t \<and>
      getExpiration default_options 1000
        (plain_session\<lparr> cookie := Some \<lparr> maxAge = Some 60000, cookie_rest = [] \<rparr> \<rparr>) = JDate (1000 + t) \<and>
      getExpiration default_options 1000
        (plain_session\<lparr> cookie := Some \<lparr> maxAge = Some 60000, cookie_rest = [] \<rparr> \<rparr>) =
      getExpiration default_options 1000 plain_session"
  using constructed_ttl_fixed [OF constructor_no_input, where ?'p = members]
  by blast

subsection \<open>The time conversion\<close>

text \<open>
  Claim C8. \<^verbatim>\<open>toSecondsEpoch\<close> throws on any value that is not a \<^verbatim>\<open>Date\<close>, and on a
  \<^verbatim>\<open>Date\<close> returns the floor of its millisecond timestamp divided by 1000. When the
  conversion throws inside \<^verbatim>\<open>set\<close> (at its first or at its second call), the error is
  caught there and handed to the callback as its error argument; the payload is not
  stamped and no request is sent.
\<close>

theorem toSecondsEpoch_spec:
  "toSecondsEpoch (JDate ms) = Inr (ms div 1000) \<and>
   ((\<forall>t. v \<noteq> JDate t) \<longrightarrow> toSecondsEpoch v = Inl (NotADate v)) \<and>
   (conv (getExpiration opts now sess) = Inl e \<longrightarrow>
      set_body conv opts now sid sess True d =
        (sess, \<lparr> called = Some [ErrArg e], unhandled = None, dbstate = d \<rparr>)) \<and>
   (conv (getExpiration opts now sess) = Inr x \<and> conv (JDate now) = Inl e \<longrightarrow>
      set_body conv opts now sid sess True d =
        (sess, \<lparr> called = Some [ErrArg e], unhandled = None, dbstate = d \<rparr>))"
  by (cases v) (simp_all add: set_body_def invoke_def)

text \<open>In \<^verbatim>\<open>set\<close> itself the conversion only ever receives a \<^verbatim>\<open>Date\<close>.\<close>

lemma set_op_conversions:
  "\<exists>x. toSecondsEpoch (getExpiration opts now sess) = Inr x"
  by (simp add: getExpiration_def)

text \<open>
  C8 at \<^verbatim>\<open>undefined\<close>, at a conversion that throws at once as it does for
  \<^verbatim>\<open>undefined\<close>, and at one that throws at the second call only.
\<close>

theorem toSecondsEpoch_spec_witness:
  "toSecondsEpoch JUndefined = Inl (NotADate JUndefined) \<and>
   set_body (\<lambda>v. toSecondsEpoch JUndefined) default_options 1000 ''abc'' plain_session True empty_db =
     (plain_session,
      \<lparr> called = Some [ErrArg (NotADate JUndefined)], unhandled = None, dbstate = empty_db \<rparr>) \<and>
   set_body second_throws default_options 1000 ''abc'' plain_session True empty_db =
     (plain_session,
      \<lparr> called = Some [ErrArg (NotADate JUndefined)], unhandled = None, dbstate = empty_db \<rparr>)"
proof -
  have a: "second_throws (getExpiration default_options 1000 plain_session) = Inr 86401 \<and>
      second_throws (JDate 1000) = Inl (NotADate JUndefined)"
    by (simp add: second_throws_def getExpiration_def default_options_def)
  from toSecondsEpoch_spec [of _ JUndefined "\<lambda>v. toSecondsEpoch JUndefined" default_options 1000
      plain_session "NotADate JUndefined" "''abc''" empty_db]
    toSecondsEpoch_spec [where conv = second_throws and opts = default_options and now = 1000
      and sess = plain_session and e = "NotADate JUndefined" and sid = "''abc''"
      and d = empty_db and x = 86401, THEN conjunct2, THEN conjunct2, THEN conjunct2,
      rule_format, OF a]
  show ?thesis by simp
qed

subsection \<open>Marshalling\<close>

text \<open>The marshalling changes nothing in a value that is free of the values it rewrites.\<close>

lemma roundtrip_safe_defined: "roundtrip_safe v \<Longrightarrow> v \<noteq> JUndefined"
  by auto

lemma marshall_list_safe:
  "(\<And>x. x \<in> set xs \<Longrightarrow> roundtrip_safe x \<Longrightarrow> marshall x = x) \<Longrightarrow>
   list_all roundtrip_safe xs \<Longrightarrow>
   map marshall (filter (\<lambda>x. x \<noteq> JUndefined) xs) = xs"
  by (induction xs) (auto dest: roundtrip_safe_defined)

lemma marshall_pairs_safe:
  "(\<And>k x. (k, x) \<in> set ms \<Longrightarrow> roundtrip_safe x \<Longrightarrow> marshall x = x) \<Longrightarrow>
   list_all (\<lambda>(k, v). roundtrip_safe v) ms \<Longrightarrow>
   map (\<lambda>(k, v). (k, marshall v)) (filter (\<lambda>(k, v). v \<noteq> JUndefined) ms) = ms"
  by (induction ms) (auto dest: roundtrip_safe_defined)

lemma marshall_safe: "roundtrip_safe v \<Longrightarrow> marshall v = v"
proof (induction v)
  case (JArray xs)
  then show ?case
    by (simp add: marshall_list_safe)
next
  case (JObject ms)
  have "map (\<lambda>(k, v). (k, marshall v)) (filter (\<lambda>(k, v). v \<noteq> JUndefined) ms) = ms"
  proof (rule marshall_pairs_safe)
    fix k x
    assume "(k, x) \<in> set ms" and "roundtrip_safe x"
    then show "marshall x = x"
      using JObject.IH [of "(k, x)" x] by simp
  next
    show "list_all (\<lambda>(k, v). roundtrip_safe v) ms"
      using JObject.prems by simp
  qed
  then show ?case by simp
qed simp_all

lemma marshall_members_safe: "roundtrip_safe_members ms \<Longrightarrow> marshall_members ms = ms"
  unfolding roundtrip_safe_members_def marshall_members_def
  by (rule marshall_pairs_safe) (simp_all add: marshall_safe)

lemma marshall_session_safe: "roundtrip_safe_session s \<Longrightarrow> marshall_session s = s"
  by (cases "cookie s")
    (simp_all add: roundtrip_safe_session_def marshall_session_def marshall_cookie_def
      marshall_members_safe)

lemma marshall_session_updated:
  "marshall_session (s\<lparr> updated := u \<rparr>) = (marshall_session s)\<lparr> updated := u \<rparr>"
  "roundtrip_safe_session (s\<lparr> updated := u \<rparr>) = roundtrip_safe_session s"
  "updated (marshall_session s) = updated s"
  by (simp_all add: marshall_session_def roundtrip_safe_session_def)

text \<open>What the marshalling rewrites, on one list of members.\<close>

lemma marshall_members_rewrites:
  "marshall_members
     [(''note'', JString []), (''seen'', JDate 5), (''tmp'', JUndefined),
      (''user'', JString ''ann'')] =
     [(''note'', JNull), (''seen'', JObject []), (''user'', JString ''ann'')]"
  by (simp add: marshall_members_def)

subsection \<open>Requests and the four operations\<close>

text \<open>What \<^verbatim>\<open>send\<close> returns for a rejected request and for each accepted command.\<close>

lemma send_rejected:
  "fault d c = Some e \<Longrightarrow> send c d = (Inl e, d\<lparr> sent := sent d @ [c] \<rparr>)"
  by (simp add: send_def)

lemma send_get:
  "fault d (GetCommand tn hk k) = None \<Longrightarrow>
   send (GetCommand tn hk k) d = (Inr (items d k), d\<lparr> sent := sent d @ [GetCommand tn hk k] \<rparr>)"
  by (simp add: send_def)

lemma send_delete:
  "fault d (DeleteCommand tn hk k) = None \<Longrightarrow>
   send (DeleteCommand tn hk k) d =
     (Inr None, d\<lparr> sent := sent d @ [DeleteCommand tn hk k], items := (items d)(k := None) \<rparr>)"
  by (simp add: send_def)

lemma send_update_set:
  "fault d (UpdateSet tn hk k da v e) = None \<Longrightarrow>
   send (UpdateSet tn hk k da v e) d =
     (Inr None,
      d\<lparr> sent := sent d @ [UpdateSet tn hk k da v e],
         items := (items d)(k \<mapsto> \<lparr> sess_attr = Some (marshall_session v),
                                  expires_attr = Some e \<rparr>) \<rparr>)"
  by (simp add: send_def)

lemma send_update_touch:
  "fault d (UpdateTouch tn hk k da e n) = None \<Longrightarrow> items d k = Some it \<Longrightarrow>
   sess_attr it = Some s \<Longrightarrow>
   send (UpdateTouch tn hk k da e n) d =
     (Inr None,
      d\<lparr> sent := sent d @ [UpdateTouch tn hk k da e n],
         items := (items d)(k \<mapsto> \<lparr> sess_attr = Some (s\<lparr> updated := Some n \<rparr>),
                                  expires_attr = Some e \<rparr>) \<rparr>)"
  by (simp add: send_def)

text \<open>A record that is expired stays expired as the clock advances.\<close>

lemma isExpired_mono:
  "isExpired now x = Inr True \<Longrightarrow> now \<le> now' \<Longrightarrow> isExpired now' x = Inr True"
  by (auto simp: isExpired_def zdiv_mono1 split: option.splits if_splits
      intro: order_trans [OF _ zdiv_mono1])

text \<open>The outcomes of \<^verbatim>\<open>get\<close> and \<^verbatim>\<open>destroy\<close>, case by case.\<close>

lemma get_rejected:
  "fault d (getCommand opts sid) = Some e \<Longrightarrow>
   get opts now sid d =
     \<lparr> called = Some [ErrArg e], unhandled = None,
       dbstate = d\<lparr> sent := sent d @ [getCommand opts sid] \<rparr> \<rparr>"
  by (simp add: get_def send_rejected)

lemma get_missing:
  "fault d (getCommand opts sid) = None \<Longrightarrow> items d (getSessionID opts sid) = None \<Longrightarrow>
   get opts now sid d =
     \<lparr> called = Some [Null, Null], unhandled = None,
       dbstate = d\<lparr> sent := sent d @ [getCommand opts sid] \<rparr> \<rparr>"
  by (simp add: get_def send_get)

lemma get_expired:
  "fault d (getCommand opts sid) = None \<Longrightarrow> items d (getSessionID opts sid) = Some record \<Longrightarrow>
   isExpired now (expires_attr record) = Inr True \<Longrightarrow>
   get opts now sid d =
     handleExpiredSession opts sid True (d\<lparr> sent := sent d @ [getCommand opts sid] \<rparr>)"
  by (simp add: get_def send_get)

lemma get_live:
  "fault d (getCommand opts sid) = None \<Longrightarrow> items d (getSessionID opts sid) = Some record \<Longrightarrow>
   isExpired now (expires_attr record) = Inr False \<Longrightarrow>
   get opts now sid d =
     \<lparr> called = Some [Null, (case sess_attr record of None \<Rightarrow> Undefined | Some s \<Rightarrow> SessArg s)],
       unhandled = None,
       dbstate = d\<lparr> sent := sent d @ [getCommand opts sid] \<rparr> \<rparr>"
  by (simp add: get_def send_get)

lemma destroy_rejected:
  "fault d (deleteCommand opts sid) = Some e \<Longrightarrow>
   destroy opts sid cb d =
     \<lparr> called = invoke cb [ErrArg e], unhandled = None,
       dbstate = d\<lparr> sent := sent d @ [deleteCommand opts sid] \<rparr> \<rparr>"
  by (simp add: destroy_def send_rejected)

lemma destroy_accepted:
  "fault d (deleteCommand opts sid) = None \<Longrightarrow>
   destroy opts sid cb d =
     \<lparr> called = invoke cb [Null], unhandled = None,
       dbstate = d\<lparr> sent := sent d @ [deleteCommand opts sid],
                    items := (items d)(getSessionID opts sid := None) \<rparr> \<rparr>"
  by (simp add: destroy_def send_delete)

text \<open>
  Claim C3. When \<^verbatim>\<open>get\<close> finds a record that is expired: if \<^verbatim>\<open>keepExpired\<close> is false it
  hands the caller's callback to \<^verbatim>\<open>destroy\<close>, whose outcome is the outcome of the load;
  when the delete request is accepted the callback receives \<^verbatim>\<open>(null)\<close>, the record is
  gone and a subsequent load reports not-found with \<^verbatim>\<open>(null, null)\<close>. If \<^verbatim>\<open>keepExpired\<close>
  is true the callback is invoked with no arguments, so the caller sees an undefined
  session rather than the record; the table is unchanged and a later load again ends
  with an invocation without arguments.
\<close>

theorem get_expired_record:
  assumes read: "fault d (getCommand opts sid) = None"
    and found: "items d (getSessionID opts sid) = Some record"
    and expired: "isExpired now (expires_attr record) = Inr True"
  shows "(\<not> keepExpired opts \<longrightarrow>
            get opts now sid d =
              destroy opts sid True (d\<lparr> sent := sent d @ [getCommand opts sid] \<rparr>)) \<and>
         (\<not> keepExpired opts \<and> fault d (deleteCommand opts sid) = None \<longrightarrow>
            called (get opts now sid d) = Some [Null] \<and>
            items (dbstate (get opts now sid d)) = (items d)(getSessionID opts sid := None) \<and>
            called (get opts now' sid (dbstate (get opts now sid d))) = Some [Null, Null]) \<and>
         (keepExpired opts \<longrightarrow>
            called (get opts now sid d) = Some [] \<and>
            items (dbstate (get opts now sid d)) = items d \<and>
            (now \<le> now' \<longrightarrow> called (get opts now' sid (dbstate (get opts now sid d))) = Some []))"
proof (intro conjI impI)
  let ?d1 = "d\<lparr> sent := sent d @ [getCommand opts sid] \<rparr>"
  have g: "get opts now sid d = handleExpiredSession opts sid True ?d1"
    using read found expired by (rule get_expired)
  {
    assume "\<not> keepExpired opts"
    then show "get opts now sid d = destroy opts sid True ?d1"
      by (simp add: g handleExpiredSession_def)
  }
  {
    assume a: "\<not> keepExpired opts \<and> fault d (deleteCommand opts sid) = None"
    then have r: "get opts now sid d =
        \<lparr> called = Some [Null], unhandled = None,
          dbstate = ?d1\<lparr> sent := sent ?d1 @ [deleteCommand opts sid],
                          items := (items ?d1)(getSessionID opts sid := None) \<rparr> \<rparr>"
      by (simp add: g handleExpiredSession_def destroy_accepted invoke_def)
    show "called (get opts now sid d) = Some [Null]"
      by (simp add: r)
    show "items (dbstate (get opts now sid d)) = (items d)(getSessionID opts sid := None)"
      by (simp add: r)
    show "called (get opts now' sid (dbstate (get opts now sid d))) = Some [Null, Null]"
      using read by (simp add: r get_missing)
  }
  {
    assume k: "keepExpired opts"
    then have r: "get opts now sid d = \<lparr> called = Some [], unhandled = None, dbstate = ?d1 \<rparr>"
      by (simp add: g handleExpiredSession_def invoke_def)
    show "called (get opts now sid d) = Some []"
      by (simp add: r)
    show "items (dbstate (get opts now sid d)) = items d"
      by (simp add: r)
    {
      assume "now \<le> now'"
      with expired have e': "isExpired now' (expires_attr record) = Inr True"
        by (rule isExpired_mono)
      have "get opts now' sid ?d1 =
          handleExpiredSession opts sid True (?d1\<lparr> sent := sent ?d1 @ [getCommand opts sid] \<rparr>)"
        using read found e' by (intro get_expired) simp_all
      then show "called (get opts now' sid (dbstate (get opts now sid d))) = Some []"
        using k by (simp add: r handleExpiredSession_def invoke_def)
    }
  }
qed

text \<open>C3 at the expired record of \<open>expired_db\<close>, for both settings of \<^verbatim>\<open>keepExpired\<close>.\<close>

theorem get_expired_record_witness:
  "called (get default_options 5000 ''abc'' expired_db) = Some [Null] \<and>
   items (dbstate (get default_options 5000 ''abc'' expired_db)) ''sess_abc'' = None \<and>
   called (get default_options 6000 ''abc'' (dbstate (get default_options 5000 ''abc'' expired_db)))
     = Some [Null, Null] \<and>
   called (get (default_options\<lparr> keepExpired := True \<rparr>) 5000 ''abc'' expired_db) = Some [] \<and>
   items (dbstate (get (default_options\<lparr> keepExpired := True \<rparr>) 5000 ''abc'' expired_db))
     = items expired_db \<and>
   called (get (default_options\<lparr> keepExpired := True \<rparr>) 6000 ''abc''
      (dbstate (get (default_options\<lparr> keepExpired := True \<rparr>) 5000 ''abc'' expired_db))) = Some []"
proof -
  let ?r = "\<lparr> sess_attr = Some plain_session, expires_attr = Some 1 \<rparr>"
  let ?keep = "default_options\<lparr> keepExpired := True \<rparr>"
  have key: "getSessionID default_options ''abc'' = ''sess_abc''"
    "getSessionID ?keep ''abc'' = ''sess_abc''"
    by (simp_all add: getSessionID_def default_options_def)
  have flags: "\<not> keepExpired default_options" "keepExpired ?keep"
    by (simp_all add: default_options_def)
  have accepts: "\<And>c. fault expired_db c = None"
    by (simp add: expired_db_def)
  have found: "items expired_db ''sess_abc'' = Some ?r"
    by (simp add: expired_db_def)
  have found_a: "items expired_db (getSessionID default_options ''abc'') = Some ?r"
    and found_b: "items expired_db (getSessionID ?keep ''abc'') = Some ?r"
    by (simp_all only: key found)
  have expired: "isExpired 5000 (expires_attr ?r) = Inr True"
    by (simp add: isExpired_def)
  have a: "called (get default_options 5000 ''abc'' expired_db) = Some [Null] \<and>
      items (dbstate (get default_options 5000 ''abc'' expired_db)) =
        (items expired_db)(''sess_abc'' := None) \<and>
      called (get default_options 6000 ''abc''
        (dbstate (get default_options 5000 ''abc'' expired_db))) = Some [Null, Null]"
    using get_expired_record [OF accepts found_a expired, of 6000, THEN conjunct2] flags accepts
    by (simp add: key)
  have b: "called (get ?keep 5000 ''abc'' expired_db) = Some [] \<and>
      items (dbstate (get ?keep 5000 ''abc'' expired_db)) = items expired_db \<and>
      called (get ?keep 6000 ''abc'' (dbstate (get ?keep 5000 ''abc'' expired_db))) = Some []"
    using get_expired_record [OF accepts found_b expired, of 6000, THEN conjunct2] flags
    by (simp add: key)
  from a have "items (dbstate (get default_options 5000 ''abc'' expired_db)) ''sess_abc'' = None"
    by simp
  with a b show ?thesis
    by blast
qed

subsection \<open>Saving and touching\<close>

text \<open>
  \<^verbatim>\<open>set\<close> always stamps the payload with the clock in seconds and sends one update; its
  callback is invoked with no arguments whether the request is accepted or rejected,
  and a rejection is left unhandled.
\<close>

lemma set_op_eq:
  "set_op opts now sid sess cb d =
     (sess\<lparr> updated := Some (now div 1000) \<rparr>,
      finally_callback cb
        (send (updateSetCommand opts sid (sess\<lparr> updated := Some (now div 1000) \<rparr>)
                 (case toSecondsEpoch (getExpiration opts now sess) of Inr x \<Rightarrow> x)) d))"
  by (simp add: set_op_def set_body_def getExpiration_def Let_def)

lemma set_op_accepted:
  assumes "toSecondsEpoch (getExpiration opts now sess) = Inr x"
    and "fault d (updateSetCommand opts sid (sess\<lparr> updated := Some (now div 1000) \<rparr>) x) = None"
  shows "set_op opts now sid sess cb d =
     (sess\<lparr> updated := Some (now div 1000) \<rparr>,
      \<lparr> called = invoke cb [], unhandled = None,
        dbstate = d\<lparr> sent := sent d @
                       [updateSetCommand opts sid (sess\<lparr> updated := Some (now div 1000) \<rparr>) x],
                     items := (items d)(getSessionID opts sid \<mapsto>
                       \<lparr> sess_attr =
                           Some (marshall_session (sess\<lparr> updated := Some (now div 1000) \<rparr>)),
                         expires_attr = Some x \<rparr>) \<rparr> \<rparr>)"
  using assms by (simp add: set_op_eq finally_callback_def send_update_set)

lemma set_op_rejected:
  assumes "toSecondsEpoch (getExpiration opts now sess) = Inr x"
    and "fault d (updateSetCommand opts sid (sess\<lparr> updated := Some (now div 1000) \<rparr>) x) = Some e"
  shows "set_op opts now sid sess cb d =
     (sess\<lparr> updated := Some (now div 1000) \<rparr>,
      \<lparr> called = invoke cb [], unhandled = Some e,
        dbstate = d\<lparr> sent := sent d @
                       [updateSetCommand opts sid (sess\<lparr> updated := Some (now div 1000) \<rparr>) x] \<rparr> \<rparr>)"
  using assms by (simp add: set_op_eq finally_callback_def send_rejected)

text \<open>
  \<^verbatim>\<open>touch\<close> compares the stamp of the payload it is given, plus \<^verbatim>\<open>touchInterval\<close>, with
  the clock in milliseconds: it skips the write while the sum exceeds the clock and
  sends one update otherwise, or when the stamp is missing or zero.
\<close>

lemma touch_skips:
  "updated sess = Some u \<Longrightarrow> u \<noteq> 0 \<Longrightarrow> now < u + touchInterval opts \<Longrightarrow>
   touch opts now sid sess cb d = \<lparr> called = invoke cb [], unhandled = None, dbstate = d \<rparr>"
  by (simp add: touch_def)

lemma touch_writes:
  assumes "updated sess = None \<or> updated sess = Some 0 \<or>
           (\<exists>u. updated sess = Some u \<and> u + touchInterval opts \<le> now)"
    and "toSecondsEpoch (getExpiration opts now sess) = Inr x"
  shows "touch opts now sid sess cb d =
           finally_callback cb (send (updateTouchCommand opts sid x now) d)"
  using assms by (auto simp: touch_def)

lemma touch_called: "called (touch opts now sid sess cb d) = invoke cb []"
  by (simp add: touch_def finally_callback_def getExpiration_def split: prod.splits)

lemma sent_send: "sent (snd (send c d)) = sent d @ [c]"
  by (simp add: send_def Let_def split: option.splits prod.splits)

text \<open>The parts of the outcome of \<^verbatim>\<open>send(command).finally(callback)\<close>.\<close>

lemma finally_callback_sel:
  "called (finally_callback cb rd) = invoke cb []"
  "unhandled (finally_callback cb rd) = (case fst rd of Inl e \<Rightarrow> Some e | Inr _ \<Rightarrow> None)"
  "dbstate (finally_callback cb rd) = snd rd"
  by (simp_all add: finally_callback_def split: prod.splits)

text \<open>
  After a save at \<open>now\<close> the stamp is \<open>now div 1000\<close>, so a touch at \<open>now'\<close> writes as soon
  as \<open>now div 1000 + touchInterval \<le> now'\<close>.
\<close>

lemma touch_after_set:
  assumes "set_op opts now sid sess cb d = (sess', r)"
    and "now div 1000 + touchInterval opts \<le> now'"
    and "toSecondsEpoch (getExpiration opts now' sess') = Inr x"
  shows "sent (dbstate (touch opts now' sid sess' cb' (dbstate r))) =
           sent (dbstate r) @ [updateTouchCommand opts sid x now']"
proof -
  from assms(1) have "updated sess' = Some (now div 1000)"
    by (auto simp: set_op_eq)
  with assms(2) have "updated sess' = None \<or> updated sess' = Some 0 \<or>
      (\<exists>u. updated sess' = Some u \<and> u + touchInterval opts \<le> now')"
    by simp
  from touch_writes [OF this assms(3)] show ?thesis
    by (simp add: finally_callback_sel sent_send)
qed

text \<open>
  After a touch the throttle works in milliseconds: an accepted touch at \<open>now\<close> stores
  the stamp \<open>now\<close>, a load returns the session with that stamp, and a touch of that
  session before \<open>now + touchInterval\<close> sends nothing.
\<close>

lemma touch_then_touch:
  assumes due: "updated sess = None \<or> updated sess = Some 0 \<or>
           (\<exists>u. updated sess = Some u \<and> u + touchInterval opts \<le> now)"
    and expiry: "toSecondsEpoch (getExpiration opts now sess) = Inr x"
    and accepted: "fault d (updateTouchCommand opts sid x now) = None"
    and stored: "items d (getSessionID opts sid) = Some it" "sess_attr it = Some s"
    and read: "fault d (getCommand opts sid) = None"
    and fresh: "isExpired now' (Some x) = Inr False"
    and soon: "now \<noteq> 0" "now' < now + touchInterval opts"
  shows "get opts now' sid (dbstate (touch opts now sid sess cb d)) =
           \<lparr> called = Some [Null, SessArg (s\<lparr> updated := Some now \<rparr>)], unhandled = None,
             dbstate = (dbstate (touch opts now sid sess cb d))
               \<lparr> sent := sent d @ [updateTouchCommand opts sid x now, getCommand opts sid] \<rparr> \<rparr> \<and>
         touch opts now' sid (s\<lparr> updated := Some now \<rparr>) cb' d' =
           \<lparr> called = invoke cb' [], unhandled = None, dbstate = d' \<rparr>"
proof -
  let ?d1 = "dbstate (touch opts now sid sess cb d)"
  have d1: "?d1 =
      d\<lparr> sent := sent d @ [updateTouchCommand opts sid x now],
         items := (items d)(getSessionID opts sid \<mapsto>
                    \<lparr> sess_attr = Some (s\<lparr> updated := Some now \<rparr>), expires_attr = Some x \<rparr>) \<rparr>"
    using accepted stored
    by (simp add: touch_writes [OF due expiry] finally_callback_sel send_update_touch)
  have "get opts now' sid ?d1 =
      \<lparr> called = Some [Null, (case sess_attr \<lparr> sess_attr = Some (s\<lparr> updated := Some now \<rparr>),
                                                  expires_attr = Some x \<rparr> of
                                 None \<Rightarrow> Undefined | Some s \<Rightarrow> SessArg s)],
        unhandled = None,
        dbstate = ?d1\<lparr> sent := sent ?d1 @ [getCommand opts sid] \<rparr> \<rparr>"
    using read fresh by (intro get_live) (simp_all add: d1)
  moreover have "sent ?d1 @ [getCommand opts sid] =
      sent d @ [updateTouchCommand opts sid x now, getCommand opts sid]"
    by (simp add: d1)
  moreover have "touch opts now' sid (s\<lparr> updated := Some now \<rparr>) cb' d' =
      \<lparr> called = invoke cb' [], unhandled = None, dbstate = d' \<rparr>"
    using soon by (intro touch_skips [of _ now]) simp_all
  ultimately show ?thesis by simp
qed

text \<open>
  With a ttl of at least one second and a clock at or after the epoch, the expiry
  that \<^verbatim>\<open>set\<close> writes lies in a later second than the clock and is not zero.
\<close>

lemma fresh_expiry:
  assumes "ttl opts = Some t" and "1000 \<le> t" and "0 \<le> now"
  shows "toSecondsEpoch (getExpiration opts now sess) = Inr ((now + t) div 1000) \<and>
         isExpired now (Some ((now + t) div 1000)) = Inr False"
proof -
  have "now div 1000 + 1 \<le> (now + t) div 1000"
    using assms(2) zdiv_mono1 [of "now + 1000" "now + t" 1000] by simp
  moreover have "0 \<le> now div 1000"
    using assms(3) by simp
  ultimately show ?thesis
    using assms(1) by (simp add: getExpiration_def isExpired_def)
qed

subsection \<open>Errors of the database client\<close>

text \<open>
  Claim C4 says that for each of \<^verbatim>\<open>set\<close>, \<^verbatim>\<open>get\<close>, \<^verbatim>\<open>touch\<close> and \<^verbatim>\<open>destroy\<close> an
  error returned by the database client is passed as the first argument of the caller's
  callback. \<^verbatim>\<open>touch\<close> does not: when the service rejects its update, the callback is
  invoked with no arguments and the rejection stays unhandled.
\<close>

theorem touch_swallows_error_counterexample:
  "called (touch default_options 1700000000000 ''abc'' plain_session True failing_db) = Some [] \<and>
   unhandled (touch default_options 1700000000000 ''abc'' plain_session True failing_db) =
     Some unavailable \<and>
   fault failing_db (updateTouchCommand default_options ''abc'' 1700086400 1700000000000) =
     Some unavailable"
  by (simp add: touch_def plain_session_def failing_db_def empty_db_def default_options_def
      getExpiration_def finally_callback_def send_def invoke_def)

text \<open>
  Claim C4, amended. For \<^verbatim>\<open>get\<close> and \<^verbatim>\<open>destroy\<close>, including the \<^verbatim>\<open>destroy\<close> that
  \<^verbatim>\<open>get\<close> starts for an expired record, every error with which the database client
  rejects the request is passed unchanged as the only argument of the caller's callback,
  and the rejected request is sent once, never again. \<^verbatim>\<open>touch\<close> invokes its callback
  with no arguments in every case.
\<close>

theorem client_errors_in_callbacks:
  "(fault d (getCommand opts sid) = Some e \<longrightarrow>
      get opts now sid d =
        \<lparr> called = Some [ErrArg e], unhandled = None,
          dbstate = d\<lparr> sent := sent d @ [getCommand opts sid] \<rparr> \<rparr>) \<and>
   (fault d (deleteCommand opts sid) = Some e \<longrightarrow>
      destroy opts sid True d =
        \<lparr> called = Some [ErrArg e], unhandled = None,
          dbstate = d\<lparr> sent := sent d @ [deleteCommand opts sid] \<rparr> \<rparr>) \<and>
   (fault d (getCommand opts sid) = None \<and> items d (getSessionID opts sid) = Some item \<and>
    isExpired now (expires_attr item) = Inr True \<and> \<not> keepExpired opts \<and>
    fault d (deleteCommand opts sid) = Some e \<longrightarrow>
      get opts now sid d =
        \<lparr> called = Some [ErrArg e], unhandled = None,
          dbstate = d\<lparr> sent := sent d @ [getCommand opts sid, deleteCommand opts sid] \<rparr> \<rparr>) \<and>
   called (touch opts now sid sess True d) = Some []"
proof (intro conjI impI)
  assume "fault d (getCommand opts sid) = Some e"
  then show "get opts now sid d =
      \<lparr> called = Some [ErrArg e], unhandled = None,
        dbstate = d\<lparr> sent := sent d @ [getCommand opts sid] \<rparr> \<rparr>"
    by (rule get_rejected)
next
  assume "fault d (deleteCommand opts sid) = Some e"
  then show "destroy opts sid True d =
      \<lparr> called = Some [ErrArg e], unhandled = None,
        dbstate = d\<lparr> sent := sent d @ [deleteCommand opts sid] \<rparr> \<rparr>"
    by (simp add: destroy_rejected invoke_def)
next
  assume a: "fault d (getCommand opts sid) = None \<and> items d (getSessionID opts sid) = Some item \<and>
    isExpired now (expires_attr item) = Inr True \<and> \<not> keepExpired opts \<and>
    fault d (deleteCommand opts sid) = Some e"
  then have "get opts now sid d =
      handleExpiredSession opts sid True (d\<lparr> sent := sent d @ [getCommand opts sid] \<rparr>)"
    by (simp add: get_expired)
  with a show "get opts now sid d =
      \<lparr> called = Some [ErrArg e], unhandled = None,
        dbstate = d\<lparr> sent := sent d @ [getCommand opts sid, deleteCommand opts sid] \<rparr> \<rparr>"
    by (simp add: handleExpiredSession_def destroy_rejected invoke_def)
next
  show "called (touch opts now sid sess True d) = Some []"
    by (simp add: touch_called invoke_def)
qed

text \<open>
  The amended C4 at a service that rejects everything, and at one that rejects the delete
  of an expired record.
\<close>

theorem client_errors_in_callbacks_witness:
  "get default_options 5000 ''abc'' failing_db =
     \<lparr> called = Some [ErrArg unavailable], unhandled = None,
       dbstate = failing_db\<lparr> sent := [GetCommand ''sessions'' ''id'' ''sess_abc''] \<rparr> \<rparr> \<and>
   destroy default_options ''abc'' True failing_db =
     \<lparr> called = Some [ErrArg unavailable], unhandled = None,
       dbstate = failing_db\<lparr> sent := [DeleteCommand ''sessions'' ''id'' ''sess_abc''] \<rparr> \<rparr> \<and>
   get default_options 5000 ''abc'' (expired_db\<lparr> fault := delete_fails unavailable \<rparr>) =
     \<lparr> called = Some [ErrArg unavailable], unhandled = None,
       dbstate = expired_db\<lparr> fault := delete_fails unavailable,
                   sent := [GetCommand ''sessions'' ''id'' ''sess_abc'',
                            DeleteCommand ''sessions'' ''id'' ''sess_abc''] \<rparr> \<rparr>"
proof -
  let ?x = "expired_db\<lparr> fault := delete_fails unavailable \<rparr>"
  let ?r = "\<lparr> sess_attr = Some plain_session, expires_attr = Some 1 \<rparr>"
  have key: "getSessionID default_options ''abc'' = ''sess_abc''"
    "name (table default_options) = ''sessions''" "hashKey (table default_options) = ''id''"
    by (simp_all add: getSessionID_def default_options_def)
  have f: "\<And>c. fault failing_db c = Some unavailable" "sent failing_db = []"
    by (simp_all add: failing_db_def empty_db_def)
  have x: "fault ?x (getCommand default_options ''abc'') = None \<and>
      items ?x (getSessionID default_options ''abc'') = Some ?r \<and>
      isExpired 5000 (expires_attr ?r) = Inr True \<and> \<not> keepExpired default_options \<and>
      fault ?x (deleteCommand default_options ''abc'') = Some unavailable"
    by (simp add: key expired_db_def delete_fails_def isExpired_def) (simp add: default_options_def)
  have sx: "sent ?x = []"
    by (simp add: expired_db_def)
  note a = client_errors_in_callbacks [where d = failing_db and opts = default_options
      and sid = "''abc''" and e = unavailable and now = 5000,
      THEN conjunct1, rule_format, OF f(1)]
  note b = client_errors_in_callbacks [where d = failing_db and opts = default_options
      and sid = "''abc''" and e = unavailable,
      THEN conjunct2, THEN conjunct1, rule_format, OF f(1)]
  note c = client_errors_in_callbacks [where d = ?x and opts = default_options
      and sid = "''abc''" and e = unavailable and item = ?r and now = 5000,
      THEN conjunct2, THEN conjunct2, THEN conjunct1, rule_format, OF x]
  from a b c show ?thesis
    by (simp add: key f sx)
qed

subsection \<open>Load after save\<close>

text \<open>
  Claim C2, amended. For every session id and payload, \<^verbatim>\<open>get\<close> called right after a
  successful \<^verbatim>\<open>set\<close> of that id, with no elapsed time, invokes the callback with
  \<^verbatim>\<open>(null, session)\<close>, where the session is what was last saved, the store's own
  \<^verbatim>\<open>updated\<close> stamp (the clock in seconds) included, as the document client's
  marshalling returns it: empty strings as \<^verbatim>\<open>null\<close>, \<^verbatim>\<open>undefined\<close> members dropped, a
  \<^verbatim>\<open>Date\<close> or other class instance as a plain object. Its fields equal those last saved
  whenever the payload and the cookie are free of such values. This needs the read to
  be accepted and the expiry that \<^verbatim>\<open>set\<close> wrote not to be expired already at that
  time.
\<close>

theorem get_after_set:
  assumes saved: "set_op opts now sid sess cb d = (sess', r)"
    and accepted: "unhandled r = None"
    and read: "fault d (getCommand opts sid) = None"
    and expiry: "toSecondsEpoch (getExpiration opts now sess) = Inr x"
    and fresh: "isExpired now (Some x) = Inr False"
  shows "sess' = sess\<lparr> updated := Some (now div 1000) \<rparr> \<and>
         get opts now sid (dbstate r) =
           \<lparr> called = Some [Null, SessArg (marshall_session sess')], unhandled = None,
             dbstate = (dbstate r)\<lparr> sent := sent (dbstate r) @ [getCommand opts sid] \<rparr> \<rparr> \<and>
         updated (marshall_session sess') = Some (now div 1000) \<and>
         (roundtrip_safe_session sess \<longrightarrow> marshall_session sess' = sess')"
proof -
  let ?s = "sess\<lparr> updated := Some (now div 1000) \<rparr>"
  let ?c = "updateSetCommand opts sid ?s x"
  from saved expiry have s: "sess' = ?s" and r: "r = finally_callback cb (send ?c d)"
    by (auto simp: set_op_eq)
  have "fault d ?c = None"
  proof (cases "fault d ?c")
    case None
    then show ?thesis .
  next
    case (Some e)
    then have "unhandled r = Some e"
      by (simp add: r finally_callback_sel send_rejected)
    with accepted show ?thesis by simp
  qed
  then have d: "dbstate r =
      d\<lparr> sent := sent d @ [?c],
         items := (items d)(getSessionID opts sid \<mapsto>
                    \<lparr> sess_attr = Some (marshall_session ?s), expires_attr = Some x \<rparr>) \<rparr>"
    by (simp add: r finally_callback_sel send_update_set)
  have "get opts now sid (dbstate r) =
      \<lparr> called = Some [Null, (case sess_attr \<lparr> sess_attr = Some (marshall_session ?s),
                                                  expires_attr = Some x \<rparr> of
                                 None \<Rightarrow> Undefined | Some s \<Rightarrow> SessArg s)],
        unhandled = None,
        dbstate = (dbstate r)\<lparr> sent := sent (dbstate r) @ [getCommand opts sid] \<rparr> \<rparr>"
    using read fresh by (intro get_live) (simp_all add: d)
  moreover have "updated (marshall_session ?s) = Some (now div 1000)"
    by (simp add: marshall_session_updated)
  moreover have "roundtrip_safe_session sess \<longrightarrow> marshall_session ?s = ?s"
    by (simp add: marshall_session_safe marshall_session_updated)
  ultimately show ?thesis
    using s by simp
qed

text \<open>
  The amended C2 at the default store, whose ttl is one day, for a session with a
  cookie and two members that the marshalling leaves alone.
\<close>

theorem get_after_set_witness:
  "get default_options 1700000000000 ''abc''
     (dbstate (snd (set_op default_options 1700000000000 ''abc'' user_session True empty_db))) =
     \<lparr> called = Some [Null, SessArg (user_session\<lparr> updated := Some 1700000000 \<rparr>)],
       unhandled = None,
       dbstate =
         (dbstate (snd (set_op default_options 1700000000000 ''abc'' user_session True empty_db)))
           \<lparr> sent :=
               [UpdateSet ''sessions'' ''id'' ''sess_abc'' ''sess''
                  (user_session\<lparr> updated := Some 1700000000 \<rparr>) 1700086400,
                GetCommand ''sessions'' ''id'' ''sess_abc''] \<rparr> \<rparr>"
proof -
  let ?r = "set_op default_options 1700000000000 ''abc'' user_session True empty_db"
  have e: "toSecondsEpoch (getExpiration default_options 1700000000000 user_session) =
      Inr 1700086400"
    by (simp add: getExpiration_def default_options_def)
  have s: "?r = (fst ?r, snd ?r)"
    by simp
  have k: "getSessionID default_options ''abc'' = ''sess_abc''"
    "name (table default_options) = ''sessions''" "hashKey (table default_options) = ''id''"
    "dataAttribute (table default_options) = ''sess''"
    by (simp_all add: getSessionID_def default_options_def)
  have f: "fst ?r = user_session\<lparr> updated := Some 1700000000 \<rparr>"
    by (simp add: set_op_eq)
  have n: "sent (dbstate (snd ?r)) =
      [UpdateSet ''sessions'' ''id'' ''sess_abc'' ''sess''
         (user_session\<lparr> updated := Some 1700000000 \<rparr>) 1700086400]"
    by (simp add: set_op_eq finally_callback_sel sent_send e k) (simp add: empty_db_def)
  have u: "unhandled (snd ?r) = None"
    by (simp add: set_op_eq finally_callback_sel send_def empty_db_def)
  have g: "fault empty_db (getCommand default_options ''abc'') = None"
    by (simp add: empty_db_def)
  have x: "isExpired 1700000000000 (Some 1700086400) = Inr False"
    by (simp add: isExpired_def)
  have safe: "roundtrip_safe_session user_session"
    by (simp add: roundtrip_safe_session_def roundtrip_safe_members_def user_session_def)
  from get_after_set [OF s u g e x] safe show ?thesis
    by (simp add: k f n)
qed

text \<open>
  Claim C2 as stated, for every session id and payload, fails in two ways. In a store
  whose ttl is shorter than a second: with a ttl of 500 ms a save at millisecond
  1700000000000 writes the expiry 1700000000, the current second, so the load that
  follows at once finds the record expired, destroys it and calls back with
  \<^verbatim>\<open>(null)\<close> and no session. And in the default store for a payload with an empty
  string, a \<^verbatim>\<open>Date\<close> and an \<^verbatim>\<open>undefined\<close> member: the load returns \<^verbatim>\<open>null\<close>, the empty
  object and no member in their places.
\<close>

theorem get_after_set_counterexample:
  "constructor_options (no_input\<lparr> ttl_in := Some 500 \<rparr>) = Inr short_ttl_options \<and>
   unhandled (snd (set_op short_ttl_options 1700000000000 ''abc'' plain_session True empty_db)) =
     None \<and>
   called (get short_ttl_options 1700000000000 ''abc''
     (dbstate (snd (set_op short_ttl_options 1700000000000 ''abc'' plain_session True empty_db)))) =
     Some [Null] \<and>
   unhandled (snd (set_op default_options 1700000000000 ''abc'' fragile_session True empty_db)) =
     None \<and>
   called (get default_options 1700000000000 ''abc''
     (dbstate (snd (set_op default_options 1700000000000 ''abc'' fragile_session True empty_db)))) =
     Some [Null,
       SessArg \<lparr> cookie = None, updated = Some 1700000000,
                 payload = [(''note'', JNull), (''seen'', JObject []),
                            (''user'', JString ''ann'')] \<rparr>] \<and>
   payload fragile_session =
     [(''note'', JString []), (''seen'', JDate 5), (''tmp'', JUndefined),
      (''user'', JString ''ann'')]"
proof -
  have c: "constructor_options (no_input\<lparr> ttl_in := Some 500 \<rparr>) = Inr short_ttl_options"
    by (simp add: constructor_options_def no_input_def short_ttl_options_def default_options_def
        or_default_def defaults truthy_number_def)
  have e: "toSecondsEpoch (getExpiration short_ttl_options 1700000000000 plain_session) =
      Inr 1700000000"
    by (simp add: getExpiration_def short_ttl_options_def default_options_def)
  have k: "getSessionID short_ttl_options ''abc'' = ''sess_abc''"
    "\<not> keepExpired short_ttl_options"
    by (simp_all add: getSessionID_def short_ttl_options_def default_options_def)
  have s: "set_op short_ttl_options 1700000000000 ''abc'' plain_session True empty_db =
     (plain_session\<lparr> updated := Some 1700000000 \<rparr>,
      \<lparr> called = Some [], unhandled = None,
        dbstate = empty_db\<lparr> sent := sent empty_db @
                       [updateSetCommand short_ttl_options ''abc''
                          (plain_session\<lparr> updated := Some 1700000000 \<rparr>) 1700000000],
                     items := (items empty_db)(getSessionID short_ttl_options ''abc'' \<mapsto>
                       \<lparr> sess_attr =
                           Some (marshall_session (plain_session\<lparr> updated := Some 1700000000 \<rparr>)),
                         expires_attr = Some 1700000000 \<rparr>) \<rparr> \<rparr>)"
    using set_op_accepted [OF e, of empty_db "''abc''" True]
    by (simp add: empty_db_def invoke_def)
  have g: "called (get short_ttl_options 1700000000000 ''abc''
     (dbstate (snd (set_op short_ttl_options 1700000000000 ''abc'' plain_session True empty_db)))) =
     Some [Null]"
    unfolding s
    by (simp add: get_def send_def empty_db_def k isExpired_def handleExpiredSession_def
        destroy_def invoke_def Let_def)
  have e': "toSecondsEpoch (getExpiration default_options 1700000000000 fragile_session) =
      Inr 1700086400"
    by (simp add: getExpiration_def default_options_def)
  have k': "getSessionID default_options ''abc'' = ''sess_abc''"
    by (simp add: getSessionID_def default_options_def)
  have s': "set_op default_options 1700000000000 ''abc'' fragile_session True empty_db =
     (fragile_session\<lparr> updated := Some 1700000000 \<rparr>,
      \<lparr> called = Some [], unhandled = None,
        dbstate = empty_db\<lparr> sent := sent empty_db @
                       [updateSetCommand default_options ''abc''
                          (fragile_session\<lparr> updated := Some 1700000000 \<rparr>) 1700086400],
                     items := (items empty_db)(getSessionID default_options ''abc'' \<mapsto>
                       \<lparr> sess_attr =
                           Some (marshall_session (fragile_session\<lparr> updated := Some 1700000000 \<rparr>)),
                         expires_attr = Some 1700086400 \<rparr>) \<rparr> \<rparr>)"
    using set_op_accepted [OF e', of empty_db "''abc''" True]
    by (simp add: empty_db_def invoke_def)
  have m: "marshall_session (fragile_session\<lparr> updated := Some 1700000000 \<rparr>) =
      \<lparr> cookie = None, updated = Some 1700000000,
        payload = [(''note'', JNull), (''seen'', JObject []), (''user'', JString ''ann'')] \<rparr>"
    by (simp add: marshall_session_def fragile_session_def marshall_members_def)
  have g': "called (get default_options 1700000000000 ''abc''
     (dbstate (snd (set_op default_options 1700000000000 ''abc'' fragile_session True empty_db)))) =
     Some [Null,
       SessArg \<lparr> cookie = None, updated = Some 1700000000,
                 payload = [(''note'', JNull), (''seen'', JObject []),
                            (''user'', JString ''ann'')] \<rparr>]"
    unfolding s'
    by (simp add: get_def send_def empty_db_def k' isExpired_def Let_def m)
  have p: "payload fragile_session =
     [(''note'', JString []), (''seen'', JDate 5), (''tmp'', JUndefined),
      (''user'', JString ''ann'')]"
    by (simp add: fragile_session_def)
  from c g g' p show ?thesis
    by (simp add: s s')
qed

subsection \<open>Touch after save\<close>

text \<open>
  Claim C1 says that \<^verbatim>\<open>touch\<close> issues no write within \<^verbatim>\<open>touchInterval\<close> milliseconds of
  a save. Evaluated in the default store (touchInterval 30000): a save at millisecond
  1700000000000 stamps the payload with the second 1700000000, and a touch one
  millisecond later compares \<open>1700000000 + 30000\<close> with the clock in milliseconds and
  sends an update.
\<close>

theorem touch_after_set_writes:
  "fst saved = plain_session\<lparr> updated := Some 1700000000 \<rparr> \<and>
   unhandled (snd saved) = None \<and>
   touchInterval default_options = 30000 \<and>
   sent (dbstate (touch default_options 1700000000001 ''abc'' (fst saved) True (dbstate (snd saved))))
     = sent (dbstate (snd saved)) @
         [UpdateTouch ''sessions'' ''id'' ''sess_abc'' ''sess'' 1700086400 1700000000001]"
proof -
  have s: "set_op default_options 1700000000000 ''abc'' plain_session True empty_db =
      (fst saved, snd saved)"
    by (simp add: saved_def)
  have f: "fst saved = plain_session\<lparr> updated := Some 1700000000 \<rparr>"
    by (simp add: saved_def set_op_eq)
  have u: "unhandled (snd saved) = None"
    by (simp add: saved_def set_op_eq finally_callback_sel send_def empty_db_def)
  have e: "toSecondsEpoch (getExpiration default_options 1700000000001 (fst saved)) =
      Inr 1700086400"
    by (simp add: getExpiration_def default_options_def)
  have k: "getSessionID default_options ''abc'' = ''sess_abc''"
    "name (table default_options) = ''sessions''" "hashKey (table default_options) = ''id''"
    "dataAttribute (table default_options) = ''sess''" "touchInterval default_options = 30000"
    by (simp_all add: getSessionID_def default_options_def)
  have "1700000000000 div 1000 + touchInterval default_options \<le> 1700000000001"
    by (simp add: k)
  from touch_after_set [OF s this e, of True] f u show ?thesis
    by (simp add: k)
qed

end
